theory Spec2Isabelle
  imports Complex_Main "HOL-Library.Word" "HOL-Library.Sublist"
    "HOL-Library.Char_ord" "HOL-Library.List_Lexorder"
begin

section \<open>SNMP device metadata: the payload types\<close>

text \<open>
  The records of package \<open>metadata\<close>, with the fields that
  \<open>report_device_metadata.go\<close> fills and in the order of the JSON payload that
  the tests of the check expect. \<open>DeviceStatus\<close> is an integer type in Go; the
  expected payloads show \<open>1\<close> for a reachable device and \<open>2\<close> for an unreachable
  one. A \<open>nil\<close> slice and an empty slice are both the empty list. An \<open>int32\<close>
  is a 32-bit word, read as two's complement by \<open>sint\<close>.
\<close>

type_synonym DeviceStatus = int

type_synonym int32 = "32 word"

definition DeviceStatusReachable :: DeviceStatus where
  "DeviceStatusReachable = 1"


record InterfaceMetadata =
  DeviceID :: string
  IDTags :: "string list"
  Index :: int32
  Name :: string
  Alias :: string
  Description :: string
  MacAddress :: string
  AdminStatus :: int32
  OperStatus :: int32

record DeviceMetadata =
  ID :: string
  IDTags :: "string list"
  Name :: string
  Description :: string
  IPAddress :: string
  SysObjectID :: string
  Profile :: string
  Vendor :: string
  Tags :: "string list"
  Subnet :: string
  Status :: DeviceStatus

record NetworkDevicesMetadata =
  Subnet :: string
  Namespace :: string
  Devices :: "DeviceMetadata list"
  Interfaces :: "InterfaceMetadata list"
  CollectTimestamp :: int

text \<open>
  A \<open>time.Time\<close> is held as the number of seconds since the epoch, which is all
  that \<open>batchPayloads\<close> reads of it (\<open>collectTime.Unix()\<close>).
\<close>

type_synonym Time = int

definition Unix :: "Time \<Rightarrow> int" where
  "Unix t = t"

section \<open>\<open>batchPayloads\<close>\<close>

text \<open>
  The loop of \<open>batchPayloads\<close> carries three variables: the payloads closed so
  far, the payload being filled and \<open>resourceCount\<close>. One iteration first closes
  the current payload when the counter has reached \<open>batchSize\<close> (a fresh payload
  without devices, counter back to 0), then counts the interface and appends it.
  \<open>resourceCount\<close> and \<open>batchSize\<close> are Go \<open>int\<close>s; the counter never exceeds the
  number of interfaces plus one, so it is an unbounded integer here.
\<close>

type_synonym batchState = "NetworkDevicesMetadata list \<times> NetworkDevicesMetadata \<times> int"

fun batchStep :: "string \<Rightarrow> string \<Rightarrow> Time \<Rightarrow> int \<Rightarrow> batchState \<Rightarrow> InterfaceMetadata \<Rightarrow> batchState" where
  "batchStep namespace subnet collectTime batchSize (payloads, payload, resourceCount) interfaceMetadata =
     (let (payloads1, payload1, resourceCount1) =
            (if resourceCount = batchSize
             then (payloads @ [payload],
                   \<lparr>Subnet = subnet, Namespace = namespace, Devices = [], Interfaces = [],
                    CollectTimestamp = Unix collectTime\<rparr>,
                   0)
             else (payloads, payload, resourceCount));
          resourceCount2 = resourceCount1 + 1
      in (payloads1, payload1\<lparr>Interfaces := Interfaces payload1 @ [interfaceMetadata]\<rparr>, resourceCount2))"

definition batchPayloads :: "string \<Rightarrow> string \<Rightarrow> Time \<Rightarrow> int \<Rightarrow> DeviceMetadata \<Rightarrow> InterfaceMetadata list \<Rightarrow> NetworkDevicesMetadata list" where
  "batchPayloads namespace subnet collectTime batchSize device interfaces =
     (let payload = \<lparr>Subnet = subnet, Namespace = namespace, Devices = [device], Interfaces = [],
                     CollectTimestamp = Unix collectTime\<rparr>;
          resourceCount = 1;
          (payloads, payload', resourceCount') =
             foldl (batchStep namespace subnet collectTime batchSize) ([], payload, resourceCount) interfaces
      in payloads @ [payload'])"

text \<open>The resources of a payload: devices and interfaces count alike.\<close>

definition resources :: "NetworkDevicesMetadata \<Rightarrow> nat" where
  "resources p = length (Devices p) + length (Interfaces p)"

text \<open>What every payload of one run shares: subnet, namespace and collect timestamp.\<close>

definition payloadHeader :: "NetworkDevicesMetadata \<Rightarrow> string \<times> string \<times> int" where
  "payloadHeader p = (NetworkDevicesMetadata.Subnet p, Namespace p, CollectTimestamp p)"

section \<open>What \<open>report_device_metadata.go\<close> reads: config, value store, collaborators\<close>

text \<open>
  The fields of \<open>checkconfig.CheckConfig\<close> that the report reads, and
  \<open>CollectDeviceMetadata\<close>, which decides whether a run calls the report at all.
  \<open>ProfileDef\<close> is a pointer (\<open>nil\<close> when no profile is resolved); of the profile
  definition only \<open>Device.Vendor\<close> is read.
\<close>

record DeviceMeta =
  Vendor :: string

record profileDefinition =
  Device :: DeviceMeta

record CheckConfig =
  DeviceID :: string
  DeviceIDTags :: "string list"
  IPAddress :: string
  Profile :: string
  ProfileDef :: "profileDefinition option"
  ResolvedSubnetName :: string
  Namespace :: string
  CollectDeviceMetadata :: bool

text \<open>
  \<open>valuestore.ResultValueStore\<close> is not among the sources: the store is the four
  methods that the report calls on it, each a function of the method's arguments.
  \<open>GetColumnIndexes\<close> returns the indexes or an error (its message). A float64 is
  a real number here.
\<close>

record ResultValueStore =
  GetScalarValueAsString :: "string \<Rightarrow> string"
  GetColumnIndexes :: "string \<Rightarrow> string + string list"
  GetColumnValueAsString :: "string \<Rightarrow> string \<Rightarrow> string"
  GetColumnValueAsFloat :: "string \<Rightarrow> string \<Rightarrow> real"

text \<open>
  The OID constants of package \<open>metadata\<close>, with the values that the requests
  and payloads of the check's tests show.
\<close>

definition SysNameOID :: string where "SysNameOID = ''1.3.6.1.2.1.1.5.0''"

definition SysDescrOID :: string where "SysDescrOID = ''1.3.6.1.2.1.1.1.0''"

definition SysObjectIDOID :: string where "SysObjectIDOID = ''1.3.6.1.2.1.1.2.0''"

definition IfNameOID :: string where "IfNameOID = ''1.3.6.1.2.1.31.1.1.1.1''"

definition IfAliasOID :: string where "IfAliasOID = ''1.3.6.1.2.1.31.1.1.1.18''"

definition IfDescrOID :: string where "IfDescrOID = ''1.3.6.1.2.1.2.2.1.2''"

definition IfPhysAddressOID :: string where "IfPhysAddressOID = ''1.3.6.1.2.1.2.2.1.6''"

definition IfAdminStatusOID :: string where "IfAdminStatusOID = ''1.3.6.1.2.1.2.2.1.7''"

definition IfOperStatusOID :: string where "IfOperStatusOID = ''1.3.6.1.2.1.2.2.1.8''"

definition interfaceNameTagKey :: string where
  "interfaceNameTagKey = ''interface''"

text \<open>
  The collaborators outside the package, also not among the sources, are
  parameters: \<open>json.Marshal\<close> on a payload (the bytes, or the error's message),
  \<open>util.SortUniqInPlace\<close>, and the constant \<open>metadata.PayloadMetadataBatchSize\<close>.
\<close>

record Collaborators =
  Marshal :: "NetworkDevicesMetadata \<Rightarrow> string + string"
  SortUniqInPlace :: "string list \<Rightarrow> string list"
  PayloadMetadataBatchSize :: int

definition CopyStrings :: "string list \<Rightarrow> string list" where
  "CopyStrings xs = xs"

definition EventTypeNetworkDevicesMetadata :: string where
  "EventTypeNetworkDevicesMetadata = ''network-devices-metadata''"

text \<open>
  The calls on the aggregator's sender, in the order they are made, and the log:
  each entry keeps its level, its format string and its arguments.
\<close>

datatype MetricKind = Gauge | Rate | MonotonicCount

datatype ServiceCheckStatus = ServiceCheckOK | ServiceCheckWarning | ServiceCheckCritical | ServiceCheckUnknown

datatype SenderCall =
    Metric MetricKind string real string "string list"
  | ServiceCheck string ServiceCheckStatus string "string list" string
  | EventPlatformEvent string string
  | Commit

datatype LogLevel = DebugLvl | WarnLvl | ErrorLvl

datatype LogArg = StrArg string | IntArg int

record World =
  calls :: "SenderCall list"
  logs :: "(LogLevel \<times> string \<times> LogArg list) list"

definition logf :: "LogLevel \<Rightarrow> string \<Rightarrow> LogArg list \<Rightarrow> World \<Rightarrow> World" where
  "logf lvl fmt args w = w\<lparr>logs := logs w @ [(lvl, fmt, args)]\<rparr>"

definition send :: "SenderCall \<Rightarrow> World \<Rightarrow> World" where
  "send c w = w\<lparr>calls := calls w @ [c]\<rparr>"

section \<open>\<open>strconv.Atoi\<close> and the conversions to \<open>int32\<close>\<close>

text \<open>
  \<open>strconv.Atoi\<close>, as its path through \<open>ParseInt(s, 10, 0)\<close> on a 64-bit
  \<open>int\<close>; its fast path for short strings gives the same results. \<open>ParseUint\<close>
  reads the digits from the left: a character that is no digit is a syntax error
  (value 0), and a value that leaves 64 bits is a range error (the largest value),
  whichever comes first. \<open>ParseInt\<close> strips one sign, passes a syntax error on
  and clamps a value outside the signed range.
\<close>

datatype NumError = ErrSyntax | ErrRange

definition isDigit :: "char \<Rightarrow> bool" where
  "isDigit c = (48 \<le> (of_char c :: nat) \<and> (of_char c :: nat) \<le> 57)"

fun parseUintLoop :: "nat \<Rightarrow> string \<Rightarrow> nat \<times> NumError option" where
  "parseUintLoop n [] = (n, None)"
| "parseUintLoop n (c # cs) =
     (if \<not> isDigit c then (0, Some ErrSyntax)
      else if 1844674407370955162 \<le> n then (18446744073709551615, Some ErrRange)
      else (let n1 = n * 10 + (of_char c - 48)
            in if 18446744073709551615 < n1 then (18446744073709551615, Some ErrRange)
               else parseUintLoop n1 cs))"

definition ParseUint :: "string \<Rightarrow> nat \<times> NumError option" where
  "ParseUint s = (if s = [] then (0, Some ErrSyntax) else parseUintLoop 0 s)"

definition Atoi :: "string \<Rightarrow> int \<times> NumError option" where
  "Atoi s =
     (if s = [] then (0, Some ErrSyntax)
      else (let neg = (hd s = CHR ''-'');
                s1 = (if hd s = CHR ''+'' \<or> hd s = CHR ''-'' then tl s else s)
            in case ParseUint s1 of
                 (un, err) \<Rightarrow>
                   if err = Some ErrSyntax then (0, Some ErrSyntax)
                   else if \<not> neg \<and> 9223372036854775808 \<le> un then (9223372036854775807, Some ErrRange)
                   else if neg \<and> 9223372036854775808 < un then (- 9223372036854775808, Some ErrRange)
                   else (if neg then - int un else int un, None)))"

text \<open>
  \<open>int32(index)\<close> keeps the low 32 bits. \<open>int32(f)\<close> of a float64 drops the
  fraction (towards zero); for a value outside the \<open>int32\<close> range Go leaves the
  result to the implementation, and this model keeps the low 32 bits there too.
\<close>

definition int32_of_int :: "int \<Rightarrow> int32" where
  "int32_of_int i = word_of_int i"

definition int32_of_float :: "real \<Rightarrow> int32" where
  "int32_of_float f = word_of_int (if 0 \<le> f then \<lfloor>f\<rfloor> else \<lceil>f\<rceil>)"

section \<open>\<open>buildNetworkDeviceMetadata\<close>, \<open>buildNetworkInterfacesMetadata\<close>\<close>

definition buildNetworkDeviceMetadata :: "string \<Rightarrow> string list \<Rightarrow> CheckConfig \<Rightarrow> ResultValueStore option \<Rightarrow> string list \<Rightarrow> DeviceStatus \<Rightarrow> DeviceMetadata" where
  "buildNetworkDeviceMetadata deviceID idTags config store tags deviceStatus =
     (let (sysName, sysDescr, sysObjectID) =
            (case store of
               None \<Rightarrow> ('''', '''', '''')
             | Some st \<Rightarrow> (GetScalarValueAsString st SysNameOID,
                           GetScalarValueAsString st SysDescrOID,
                           GetScalarValueAsString st SysObjectIDOID));
          vendor = (case ProfileDef config of
                      None \<Rightarrow> ''''
                    | Some pd \<Rightarrow> DeviceMeta.Vendor (Device pd))
      in \<lparr>DeviceMetadata.ID = deviceID,
          DeviceMetadata.IDTags = idTags,
          DeviceMetadata.Name = sysName,
          DeviceMetadata.Description = sysDescr,
          DeviceMetadata.IPAddress = CheckConfig.IPAddress config,
          DeviceMetadata.SysObjectID = sysObjectID,
          DeviceMetadata.Profile = CheckConfig.Profile config,
          DeviceMetadata.Vendor = vendor,
          DeviceMetadata.Tags = tags,
          DeviceMetadata.Subnet = ResolvedSubnetName config,
          DeviceMetadata.Status = deviceStatus\<rparr>)"

text \<open>
  One iteration of the loop over the indexes: an index that \<open>Atoi\<close> refuses is
  logged and skipped.
\<close>

definition interfaceStep :: "string \<Rightarrow> ResultValueStore \<Rightarrow> InterfaceMetadata list \<times> World \<Rightarrow> string \<Rightarrow> InterfaceMetadata list \<times> World" where
  "interfaceStep deviceID st acc strIndex =
     (case acc of (interfaces, w) \<Rightarrow>
        (case Atoi strIndex of
           (index, Some err) \<Rightarrow>
             (interfaces, logf WarnLvl ''interface metadata: invalid index: %s'' [IntArg index] w)
         | (index, None) \<Rightarrow>
             (let name = GetColumnValueAsString st IfNameOID strIndex;
                  networkInterface =
                    \<lparr>InterfaceMetadata.DeviceID = deviceID,
                     InterfaceMetadata.IDTags = [interfaceNameTagKey @ '':'' @ name],
                     InterfaceMetadata.Index = int32_of_int index,
                     InterfaceMetadata.Name = name,
                     InterfaceMetadata.Alias = GetColumnValueAsString st IfAliasOID strIndex,
                     InterfaceMetadata.Description = GetColumnValueAsString st IfDescrOID strIndex,
                     InterfaceMetadata.MacAddress = GetColumnValueAsString st IfPhysAddressOID strIndex,
                     InterfaceMetadata.AdminStatus = int32_of_float (GetColumnValueAsFloat st IfAdminStatusOID strIndex),
                     InterfaceMetadata.OperStatus = int32_of_float (GetColumnValueAsFloat st IfOperStatusOID strIndex)\<rparr>
              in (interfaces @ [networkInterface], w))))"

text \<open>The result is the pair Go returns: the interfaces and the error, if any.\<close>

definition buildNetworkInterfacesMetadata :: "string \<Rightarrow> ResultValueStore option \<Rightarrow> World \<Rightarrow> (InterfaceMetadata list \<times> string option) \<times> World" where
  "buildNetworkInterfacesMetadata deviceID store w =
     (case store of
        None \<Rightarrow> (([], None), w)
      | Some st \<Rightarrow>
          (case GetColumnIndexes st IfNameOID of
             Inl err \<Rightarrow> (([], Some (''no interface indexes found: '' @ err)), w)
           | Inr indexes \<Rightarrow>
               (case foldl (interfaceStep deviceID st) ([], w) indexes of
                  (interfaces, w') \<Rightarrow> ((interfaces, None), w'))))"

section \<open>\<open>ReportNetworkDeviceMetadata\<close>\<close>

text \<open>
  The loop over the payloads: a payload that does not marshal is logged and the
  function returns, so the recursion stops there.
\<close>

fun sendPayloads :: "Collaborators \<Rightarrow> NetworkDevicesMetadata list \<Rightarrow> World \<Rightarrow> World" where
  "sendPayloads ext [] w = w"
| "sendPayloads ext (payload # rest) w =
     (case Marshal ext payload of
        Inl err \<Rightarrow> logf ErrorLvl ''Error marshalling device metadata: %s'' [StrArg err] w
      | Inr payloadBytes \<Rightarrow>
          sendPayloads ext rest (send (EventPlatformEvent payloadBytes EventTypeNetworkDevicesMetadata) w))"

text \<open>
  The part of \<open>ReportNetworkDeviceMetadata\<close> before its loop: the payloads of the
  run, and the world after the logging done while they were built.
\<close>

definition metadataPayloads :: "Collaborators \<Rightarrow> CheckConfig \<Rightarrow> ResultValueStore option \<Rightarrow> string list \<Rightarrow> Time \<Rightarrow> DeviceStatus \<Rightarrow> World \<Rightarrow> NetworkDevicesMetadata list \<times> World" where
  "metadataPayloads ext config store origTags collectTime deviceStatus w =
     (let tags = SortUniqInPlace ext (CopyStrings origTags);
          device = buildNetworkDeviceMetadata (CheckConfig.DeviceID config) (DeviceIDTags config)
                     config store tags deviceStatus
      in case buildNetworkInterfacesMetadata (CheckConfig.DeviceID config) store w of
           ((interfaces, err), w1) \<Rightarrow>
             (let w2 = (case err of
                          None \<Rightarrow> w1
                        | Some e \<Rightarrow> logf DebugLvl ''Unable to build interfaces metadata: %s'' [StrArg e] w1)
              in (batchPayloads (CheckConfig.Namespace config) (ResolvedSubnetName config) collectTime
                    (PayloadMetadataBatchSize ext) device interfaces, w2)))"

definition ReportNetworkDeviceMetadata :: "Collaborators \<Rightarrow> CheckConfig \<Rightarrow> ResultValueStore option \<Rightarrow> string list \<Rightarrow> Time \<Rightarrow> DeviceStatus \<Rightarrow> World \<Rightarrow> World" where
  "ReportNetworkDeviceMetadata ext config store origTags collectTime deviceStatus w =
     (case metadataPayloads ext config store origTags collectTime deviceStatus w of
        (payloads, w2) \<Rightarrow> sendPayloads ext payloads w2)"

section \<open>Vocabulary for the properties of the report\<close>

text \<open>Whether a payload marshals, and the sender call that a payload which marshals gives.\<close>

definition marshals :: "Collaborators \<Rightarrow> NetworkDevicesMetadata \<Rightarrow> bool" where
  "marshals ext p = (case Marshal ext p of Inl err \<Rightarrow> False | Inr payloadBytes \<Rightarrow> True)"

definition eventOf :: "Collaborators \<Rightarrow> NetworkDevicesMetadata \<Rightarrow> SenderCall list" where
  "eventOf ext p =
     (case Marshal ext p of
        Inl err \<Rightarrow> []
      | Inr payloadBytes \<Rightarrow> [EventPlatformEvent payloadBytes EventTypeNetworkDevicesMetadata])"

text \<open>The log entry for the first payload of a list, when it does not marshal.\<close>

definition marshalFailureLog :: "Collaborators \<Rightarrow> NetworkDevicesMetadata list \<Rightarrow> (LogLevel \<times> string \<times> LogArg list) list" where
  "marshalFailureLog ext ps =
     (case ps of
        [] \<Rightarrow> []
      | p # rest \<Rightarrow>
          (case Marshal ext p of
             Inl err \<Rightarrow> [(ErrorLvl, ''Error marshalling device metadata: %s'', [StrArg err])]
           | Inr payloadBytes \<Rightarrow> []))"

text \<open>A world in which nothing has been sent or logged yet.\<close>

definition emptyWorld :: World where
  "emptyWorld = \<lparr>calls = [], logs = []\<rparr>"

section \<open>The check's run\<close>

















section \<open>Vocabulary for the properties of the run\<close>

















section \<open>Fixtures\<close>

text \<open>
  The device and the two interfaces of the payload that \<open>TestDiscovery\<close> expects
  for \<open>10.10.0.0\<close>, a third interface, and the collect timestamp of the test.
\<close>

definition testDevice :: DeviceMetadata where
  "testDevice =
     \<lparr>DeviceMetadata.ID = ''default:10.10.0.0'',
      DeviceMetadata.IDTags = [''device_namespace:default'', ''snmp_device:10.10.0.0''],
      DeviceMetadata.Name = ''foo_sys_name'',
      DeviceMetadata.Description = '''',
      DeviceMetadata.IPAddress = ''10.10.0.0'',
      DeviceMetadata.SysObjectID = '''',
      DeviceMetadata.Profile = '''',
      DeviceMetadata.Vendor = '''',
      DeviceMetadata.Tags = [''autodiscovery_subnet:10.10.0.0/30'', ''device_namespace:default'',
                             ''snmp_device:10.10.0.0'', ''snmp_host:foo_sys_name''],
      DeviceMetadata.Subnet = ''10.10.0.0/30'',
      DeviceMetadata.Status = 1\<rparr>"

definition testInterface1 :: InterfaceMetadata where
  "testInterface1 =
     \<lparr>InterfaceMetadata.DeviceID = ''default:10.10.0.0'',
      InterfaceMetadata.IDTags = [''interface:nameRow1''],
      InterfaceMetadata.Index = 1,
      InterfaceMetadata.Name = ''nameRow1'',
      InterfaceMetadata.Alias = ''descRow1'',
      InterfaceMetadata.Description = ''ifDescRow1'',
      InterfaceMetadata.MacAddress = ''00:00:00:00:00:01'',
      InterfaceMetadata.AdminStatus = 1,
      InterfaceMetadata.OperStatus = 1\<rparr>"

definition testInterface2 :: InterfaceMetadata where
  "testInterface2 =
     \<lparr>InterfaceMetadata.DeviceID = ''default:10.10.0.0'',
      InterfaceMetadata.IDTags = [''interface:nameRow2''],
      InterfaceMetadata.Index = 2,
      InterfaceMetadata.Name = ''nameRow2'',
      InterfaceMetadata.Alias = ''descRow2'',
      InterfaceMetadata.Description = ''ifDescRow2'',
      InterfaceMetadata.MacAddress = ''00:00:00:00:00:02'',
      InterfaceMetadata.AdminStatus = 1,
      InterfaceMetadata.OperStatus = 1\<rparr>"

definition testInterface3 :: InterfaceMetadata where
  "testInterface3 =
     \<lparr>InterfaceMetadata.DeviceID = ''default:10.10.0.0'',
      InterfaceMetadata.IDTags = [''interface:nameRow3''],
      InterfaceMetadata.Index = 3,
      InterfaceMetadata.Name = ''nameRow3'',
      InterfaceMetadata.Alias = ''descRow3'',
      InterfaceMetadata.Description = ''ifDescRow3'',
      InterfaceMetadata.MacAddress = ''00:00:00:00:00:03'',
      InterfaceMetadata.AdminStatus = 1,
      InterfaceMetadata.OperStatus = 2\<rparr>"

definition testCollectTime :: Time where
  "testCollectTime = 946684800"

text \<open>
  The check config, the tags and the payload of \<open>TestReportDeviceMetadataWithFetchError\<close>:
  no profile, device \<open>1.2.3.5\<close> in namespace \<open>default\<close>.
\<close>

definition fetchErrorConfig :: CheckConfig where
  "fetchErrorConfig =
     \<lparr>CheckConfig.DeviceID = ''default:1.2.3.5'',
      DeviceIDTags = [''device_namespace:default'', ''snmp_device:1.2.3.5''],
      CheckConfig.IPAddress = ''1.2.3.5'',
      CheckConfig.Profile = '''',
      ProfileDef = None,
      ResolvedSubnetName = ''127.0.0.0/30'',
      CheckConfig.Namespace = ''default'',
      CollectDeviceMetadata = True\<rparr>"

definition fetchErrorTags :: "string list" where
  "fetchErrorTags = [''device_namespace:default'', ''snmp_device:1.2.3.5'', ''mytag:val1'',
                     ''autodiscovery_subnet:127.0.0.0/30'']"

definition fetchErrorPayload :: NetworkDevicesMetadata where
  "fetchErrorPayload =
     \<lparr>NetworkDevicesMetadata.Subnet = ''127.0.0.0/30'',
      NetworkDevicesMetadata.Namespace = ''default'',
      Devices =
        [\<lparr>DeviceMetadata.ID = ''default:1.2.3.5'',
          DeviceMetadata.IDTags = [''device_namespace:default'', ''snmp_device:1.2.3.5''],
          DeviceMetadata.Name = '''',
          DeviceMetadata.Description = '''',
          DeviceMetadata.IPAddress = ''1.2.3.5'',
          DeviceMetadata.SysObjectID = '''',
          DeviceMetadata.Profile = '''',
          DeviceMetadata.Vendor = '''',
          DeviceMetadata.Tags = [''autodiscovery_subnet:127.0.0.0/30'', ''device_namespace:default'',
                                 ''mytag:val1'', ''snmp_device:1.2.3.5''],
          DeviceMetadata.Subnet = ''127.0.0.0/30'',
          DeviceMetadata.Status = 2\<rparr>],
      Interfaces = [],
      CollectTimestamp = 946684800\<rparr>"

text \<open>
  Collaborators for the examples: the tags sorted and without duplicates, a budget
  of 100 resources, and a marshaller that gives every payload the same bytes.
\<close>

definition sortUniq :: "string list \<Rightarrow> string list" where
  "sortUniq xs = sort (remdups xs)"



definition oneInterfaceStore :: ResultValueStore where
  "oneInterfaceStore =
     \<lparr>GetScalarValueAsString = (\<lambda>oid. ''''),
      GetColumnIndexes = (\<lambda>oid. Inr [''1'']),
      GetColumnValueAsString = (\<lambda>oid strIndex. ''nameRow1''),
      GetColumnValueAsFloat = (\<lambda>oid strIndex. 1)\<rparr>"

definition failingCollaborators :: Collaborators where
  "failingCollaborators =
     \<lparr>Marshal = (\<lambda>p. if Devices p = [] then Inr ''{interfaces}'' else Inl ''unsupported value''),
      SortUniqInPlace = sortUniq,
      PayloadMetadataBatchSize = 1\<rparr>"














section \<open>Properties of \<open>batchPayloads\<close>\<close>

text \<open>The ceiling of a quotient of integers, as an integer division.\<close>

lemma ceil_div_aux:
  assumes "0 < (m::int)" shows "- (- a div m) = (a + m - 1) div m"
proof -
  have eq: "a + m - 1 = (a mod m + m - 1) + (a div m) * m" by (simp add: algebra_simps)
  have d: "(a + m - 1) div m = (a mod m + m - 1) div m + a div m"
    by (subst eq) (simp only: div_mult_self1 [OF less_imp_neq[OF assms, symmetric]] div_mult_self2 div_add)
  show ?thesis
  proof (cases "a mod m = 0")
    case True
    then show ?thesis using assms d by (simp add: zdiv_zminus1_eq_if div_pos_pos_trivial)
  next
    case False
    have "0 \<le> a mod m" "a mod m < m" using assms by simp_all
    with False have "m \<le> a mod m + m - 1" "a mod m + m - 1 < 2 * m" by linarith+
    then have "(a mod m + m - 1) div m = 1"
      using assms by (intro int_div_pos_eq[where r="a mod m - 1"]) auto
    then show ?thesis using False assms d by (simp add: zdiv_zminus1_eq_if)
  qed
qed

lemma ceil_div: "0 < (m::int) \<Longrightarrow> \<lceil>real_of_int a / real_of_int m\<rceil> = (a + m - 1) div m"
  by (simp add: ceiling_divide_eq_div ceil_div_aux)

lemma map_all_replicate: "(\<forall>x\<in>set xs. f x = c) \<Longrightarrow> map f xs = replicate (length xs) c"
  by (induction xs) simp_all

text \<open>
  The loop invariant for the count: the counter is the number of resources of the
  payload being filled, it stays between 1 and the budget, and every payload that
  has been closed is full.
\<close>

lemma batch_fold_count:
  assumes "1 \<le> rc" "rc \<le> bs" "rc = int (resources p)" "\<forall>q\<in>set ps. int (resources q) = bs"
    and "foldl (batchStep ns sub t bs) (ps, p, rc) ifs = (ps', p', rc')"
  shows "int (length ps') = int (length ps) + (rc + int (length ifs) - 1) div bs
       \<and> 1 \<le> rc' \<and> rc' \<le> bs \<and> rc' = int (resources p') \<and> (\<forall>q\<in>set ps'. int (resources q) = bs)"
  using assms
proof (induction ifs arbitrary: ps p rc)
  case Nil
  then show ?case by auto
next
  case (Cons i ifs)
  show ?case
  proof (cases "rc = bs")
    case True
    then show ?thesis using Cons.prems Cons.IH[of 1 "\<lparr>NetworkDevicesMetadata.Subnet = sub, NetworkDevicesMetadata.Namespace = ns, Devices = [], Interfaces = [i], CollectTimestamp = Unix t\<rparr>" "ps @ [p]"]
      by (simp add: resources_def)
  next
    case False
    then show ?thesis using Cons.prems Cons.IH[of "rc + 1" "p\<lparr>Interfaces := Interfaces p @ [i]\<rparr>" ps]
      by (simp add: resources_def)
  qed
qed

text \<open>The loop appends every interface once, in order, and adds no device.\<close>

lemma batch_fold_content:
  assumes "foldl (batchStep ns sub t bs) (ps, p, rc) ifs = (ps', p', rc')"
  shows "concat (map Interfaces (ps' @ [p'])) = concat (map Interfaces (ps @ [p])) @ ifs
       \<and> (\<exists>n. map Devices (ps' @ [p']) = map Devices (ps @ [p]) @ replicate n [])"
  using assms
proof (induction ifs arbitrary: ps p rc)
  case Nil
  then have "ps' = ps" "p' = p" by simp_all
  then show ?case by simp
next
  case (Cons i ifs)
  show ?case
  proof (cases "rc = bs")
    case True
    define fresh where "fresh = \<lparr>NetworkDevicesMetadata.Subnet = sub, NetworkDevicesMetadata.Namespace = ns, Devices = [], Interfaces = [i], CollectTimestamp = Unix t\<rparr>"
    from True Cons.prems have "foldl (batchStep ns sub t bs) (ps @ [p], fresh, 1) ifs = (ps', p', rc')"
      by (simp add: fresh_def)
    from Cons.IH[OF this] obtain n where
      i: "concat (map Interfaces (ps' @ [p'])) = concat (map Interfaces ((ps @ [p]) @ [fresh])) @ ifs"
      and d: "map Devices (ps' @ [p']) = map Devices ((ps @ [p]) @ [fresh]) @ replicate n []"
      by blast
    have "concat (map Interfaces (ps' @ [p'])) = concat (map Interfaces (ps @ [p])) @ i # ifs"
      using i by (simp add: fresh_def)
    moreover have "map Devices (ps' @ [p']) = map Devices (ps @ [p]) @ replicate (Suc n) []"
      using d by (simp add: fresh_def)
    ultimately show ?thesis by (intro conjI exI[of _ "Suc n"])
  next
    case False
    with Cons.prems have "foldl (batchStep ns sub t bs) (ps, p\<lparr>Interfaces := Interfaces p @ [i]\<rparr>, rc + 1) ifs = (ps', p', rc')"
      by simp
    from Cons.IH[OF this] obtain n where
      i: "concat (map Interfaces (ps' @ [p'])) = concat (map Interfaces (ps @ [p\<lparr>Interfaces := Interfaces p @ [i]\<rparr>])) @ ifs"
      and d: "map Devices (ps' @ [p']) = map Devices (ps @ [p\<lparr>Interfaces := Interfaces p @ [i]\<rparr>]) @ replicate n []"
      by blast
    have "concat (map Interfaces (ps' @ [p'])) = concat (map Interfaces (ps @ [p])) @ i # ifs"
      using i by simp
    moreover have "map Devices (ps' @ [p']) = map Devices (ps @ [p]) @ replicate n []"
      using d by simp
    ultimately show ?thesis by (intro conjI exI[of _ n])
  qed
qed

lemma payloadHeader_Interfaces [simp]: "payloadHeader (p\<lparr>Interfaces := x\<rparr>) = payloadHeader p"
  by (simp add: payloadHeader_def)

lemma batch_fold_header:
  assumes "foldl (batchStep ns sub t bs) (ps, p, rc) ifs = (ps', p', rc')"
    and "\<forall>q\<in>set (ps @ [p]). payloadHeader q = (sub, ns, Unix t)"
  shows "\<forall>q\<in>set (ps' @ [p']). payloadHeader q = (sub, ns, Unix t)"
  using assms
proof (induction ifs arbitrary: ps p rc)
  case Nil
  then have "ps' = ps" "p' = p" by simp_all
  with Nil.prems(2) show ?case by simp
next
  case (Cons i ifs)
  show ?case
  proof (cases "rc = bs")
    case True
    define fresh where "fresh = \<lparr>NetworkDevicesMetadata.Subnet = sub, NetworkDevicesMetadata.Namespace = ns, Devices = [], Interfaces = [i], CollectTimestamp = Unix t\<rparr>"
    from True Cons.prems(1) have f: "foldl (batchStep ns sub t bs) (ps @ [p], fresh, 1) ifs = (ps', p', rc')"
      by (simp add: fresh_def)
    have "payloadHeader fresh = (sub, ns, Unix t)" by (simp add: fresh_def payloadHeader_def)
    with Cons.prems(2) have "\<forall>q\<in>set ((ps @ [p]) @ [fresh]). payloadHeader q = (sub, ns, Unix t)"
      by simp
    from Cons.IH[OF f this] show ?thesis .
  next
    case False
    with Cons.prems(1) have f: "foldl (batchStep ns sub t bs) (ps, p\<lparr>Interfaces := Interfaces p @ [i]\<rparr>, rc + 1) ifs = (ps', p', rc')"
      by simp
    from Cons.prems(2) have "\<forall>q\<in>set (ps @ [p\<lparr>Interfaces := Interfaces p @ [i]\<rparr>]). payloadHeader q = (sub, ns, Unix t)"
      by simp
    from Cons.IH[OF f this] show ?thesis .
  qed
qed

lemma batchPayloads_unfold:
  obtains ps' p' rc' where
    "foldl (batchStep ns sub t bs) ([], \<lparr>NetworkDevicesMetadata.Subnet = sub, NetworkDevicesMetadata.Namespace = ns, Devices = [device], Interfaces = [], CollectTimestamp = Unix t\<rparr>, 1) ifs = (ps', p', rc')"
    "batchPayloads ns sub t bs device ifs = ps' @ [p']"
proof -
  obtain ps' p' rc' where f: "foldl (batchStep ns sub t bs) ([], \<lparr>NetworkDevicesMetadata.Subnet = sub, NetworkDevicesMetadata.Namespace = ns, Devices = [device], Interfaces = [], CollectTimestamp = Unix t\<rparr>, 1) ifs = (ps', p', rc')"
    by (cases "foldl (batchStep ns sub t bs) ([], \<lparr>NetworkDevicesMetadata.Subnet = sub, NetworkDevicesMetadata.Namespace = ns, Devices = [device], Interfaces = [], CollectTimestamp = Unix t\<rparr>, 1) ifs") blast
  then have "batchPayloads ns sub t bs device ifs = ps' @ [p']"
    by (simp add: batchPayloads_def)
  with f show ?thesis using that by blast
qed


text \<open>A run with budget 2 and two interfaces: the device and the first interface, then the second.\<close>

lemma batchPayloads_two_interfaces:
  "batchPayloads ns sub t 2 device [i1, i2] =
     [\<lparr>NetworkDevicesMetadata.Subnet = sub, NetworkDevicesMetadata.Namespace = ns, Devices = [device],
       Interfaces = [i1], CollectTimestamp = Unix t\<rparr>,
      \<lparr>NetworkDevicesMetadata.Subnet = sub, NetworkDevicesMetadata.Namespace = ns, Devices = [],
       Interfaces = [i2], CollectTimestamp = Unix t\<rparr>]"
  by (simp add: batchPayloads_def)

text \<open>A run with budget 3 and three interfaces: the device and two interfaces, then the third.\<close>

lemma batchPayloads_three_interfaces:
  "batchPayloads ns sub t 3 device [i1, i2, i3] =
     [\<lparr>NetworkDevicesMetadata.Subnet = sub, NetworkDevicesMetadata.Namespace = ns, Devices = [device],
       Interfaces = [i1, i2], CollectTimestamp = Unix t\<rparr>,
      \<lparr>NetworkDevicesMetadata.Subnet = sub, NetworkDevicesMetadata.Namespace = ns, Devices = [],
       Interfaces = [i3], CollectTimestamp = Unix t\<rparr>]"
  by (simp add: batchPayloads_def)

text \<open>
  C1. For every device record and every list of K interface records, \<open>batchPayloads\<close>
  with a payload budget M, M at least 1, yields exactly the ceiling of (K+1)/M
  payloads. Each payload holds at most M resources, devices and interfaces counted
  alike; every payload but the last holds exactly M, and the last holds at least
  one. The first payload exists and its devices are the device record alone, in its
  first slot; every later payload has no device record, so it carries interfaces
  only. The interfaces of the payloads, in payload order, are the K interfaces of
  the input, each once and in their order.
\<close>

theorem batchPayloads_count_budget_device:
  assumes "1 \<le> M"
  shows "int (length (batchPayloads ns sub t M device interfaces))
           = \<lceil>real_of_int (int (length interfaces) + 1) / real_of_int M\<rceil>
       \<and> (\<forall>p \<in> set (batchPayloads ns sub t M device interfaces). int (resources p) \<le> M)
       \<and> (\<forall>p \<in> set (butlast (batchPayloads ns sub t M device interfaces)). int (resources p) = M)
       \<and> 1 \<le> resources (last (batchPayloads ns sub t M device interfaces))
       \<and> batchPayloads ns sub t M device interfaces \<noteq> []
       \<and> Devices (hd (batchPayloads ns sub t M device interfaces)) = [device]
       \<and> (\<forall>p \<in> set (tl (batchPayloads ns sub t M device interfaces)). Devices p = [])
       \<and> concat (map Interfaces (batchPayloads ns sub t M device interfaces)) = interfaces"
proof -
  define p0 where "p0 = \<lparr>NetworkDevicesMetadata.Subnet = sub, NetworkDevicesMetadata.Namespace = ns, Devices = [device], Interfaces = [], CollectTimestamp = Unix t\<rparr>"
  obtain ps' p' rc' where
    f: "foldl (batchStep ns sub t M) ([], p0, 1) interfaces = (ps', p', rc')"
    and b: "batchPayloads ns sub t M device interfaces = ps' @ [p']"
    unfolding p0_def by (rule batchPayloads_unfold)
  have r0: "(1::int) = int (resources p0)" by (simp add: p0_def resources_def)
  have e0: "\<forall>q\<in>set []. int (resources q) = M" by simp
  from batch_fold_count[OF order_refl assms r0 e0 f]
  have len: "int (length ps') = (1 + int (length interfaces) - 1) div M"
    and rc: "1 \<le> rc'" "rc' \<le> M" "rc' = int (resources p')"
    and all: "\<forall>q\<in>set ps'. int (resources q) = M"
    by simp_all
  have "int (length (ps' @ [p'])) = (int (length interfaces) + 1 + M - 1) div M"
    using len assms by simp
  then have c1: "int (length (batchPayloads ns sub t M device interfaces))
           = \<lceil>real_of_int (int (length interfaces) + 1) / real_of_int M\<rceil>"
    using assms b by (simp only: ceil_div)
  have c2: "\<forall>p \<in> set (batchPayloads ns sub t M device interfaces). int (resources p) \<le> M"
    using all rc b by simp
  have c2a: "\<forall>p \<in> set (butlast (batchPayloads ns sub t M device interfaces)). int (resources p) = M"
    using all b by simp
  have c2b: "1 \<le> resources (last (batchPayloads ns sub t M device interfaces))"
    using rc b by simp
  from batch_fold_content[OF f] obtain n where
    i: "concat (map Interfaces (ps' @ [p'])) = concat (map Interfaces ([] @ [p0])) @ interfaces"
    and d: "map Devices (ps' @ [p']) = map Devices ([] @ [p0]) @ replicate n []" by blast
  from d have d': "map Devices (batchPayloads ns sub t M device interfaces) = [device] # replicate n []"
    using b by (simp add: p0_def)
  have c3: "batchPayloads ns sub t M device interfaces \<noteq> []" using b by simp
  have c4: "Devices (hd (batchPayloads ns sub t M device interfaces)) = [device]"
    using d' c3 by (metis hd_map list.sel(1))
  have "map Devices (tl (batchPayloads ns sub t M device interfaces)) = replicate n []"
    using d' by (metis list.sel(3) map_tl)
  then have c5: "\<forall>p \<in> set (tl (batchPayloads ns sub t M device interfaces)). Devices p = []"
    by (metis (no_types, lifting) in_set_replicate image_eqI list.set_map)
  from i b have c6: "concat (map Interfaces (batchPayloads ns sub t M device interfaces)) = interfaces"
    by (simp add: p0_def)
  from c1 c2 c2a c2b c3 c4 c5 c6 show ?thesis by (intro conjI)
qed

text \<open>
  The budget 3 with three interfaces: four resources, two payloads, the first one
  full.
\<close>

theorem batchPayloads_count_budget_device_witness:
  "(1::int) \<le> 3
   \<and> map resources (batchPayloads ''default'' ''10.10.0.0/30'' testCollectTime 3 testDevice
                [testInterface1, testInterface2, testInterface3]) = [3, 1]
   \<and> map Devices (batchPayloads ''default'' ''10.10.0.0/30'' testCollectTime 3 testDevice
                [testInterface1, testInterface2, testInterface3]) = [[testDevice], []]
   \<and> map Interfaces (batchPayloads ''default'' ''10.10.0.0/30'' testCollectTime 3 testDevice
                [testInterface1, testInterface2, testInterface3])
        = [[testInterface1, testInterface2], [testInterface3]]
   \<and> int (length (batchPayloads ''default'' ''10.10.0.0/30'' testCollectTime 3 testDevice
                [testInterface1, testInterface2, testInterface3]))
        = \<lceil>real_of_int (int (length [testInterface1, testInterface2, testInterface3]) + 1) / real_of_int 3\<rceil>
   \<and> list_all (\<lambda>p. int (resources p) \<le> 3)
        (batchPayloads ''default'' ''10.10.0.0/30'' testCollectTime 3 testDevice
                [testInterface1, testInterface2, testInterface3])
   \<and> list_all (\<lambda>p. int (resources p) = 3)
        (butlast (batchPayloads ''default'' ''10.10.0.0/30'' testCollectTime 3 testDevice
                [testInterface1, testInterface2, testInterface3]))
   \<and> Devices (hd (batchPayloads ''default'' ''10.10.0.0/30'' testCollectTime 3 testDevice
                [testInterface1, testInterface2, testInterface3])) = [testDevice]
   \<and> list_all (\<lambda>p. Devices p = [])
        (tl (batchPayloads ''default'' ''10.10.0.0/30'' testCollectTime 3 testDevice
                [testInterface1, testInterface2, testInterface3]))
   \<and> concat (map Interfaces (batchPayloads ''default'' ''10.10.0.0/30'' testCollectTime 3 testDevice
                [testInterface1, testInterface2, testInterface3]))
        = [testInterface1, testInterface2, testInterface3]"
proof -
  have h: "(1::int) \<le> 3" by simp
  have e: "map resources (batchPayloads ''default'' ''10.10.0.0/30'' testCollectTime 3 testDevice
                [testInterface1, testInterface2, testInterface3]) = [3, 1]
     \<and> map Devices (batchPayloads ''default'' ''10.10.0.0/30'' testCollectTime 3 testDevice
                [testInterface1, testInterface2, testInterface3]) = [[testDevice], []]
     \<and> map Interfaces (batchPayloads ''default'' ''10.10.0.0/30'' testCollectTime 3 testDevice
                [testInterface1, testInterface2, testInterface3])
        = [[testInterface1, testInterface2], [testInterface3]]"
    by (simp add: batchPayloads_three_interfaces resources_def)
  from h e batchPayloads_count_budget_device [OF h, of "''default''" "''10.10.0.0/30''"
      testCollectTime testDevice "[testInterface1, testInterface2, testInterface3]"]
  show ?thesis unfolding list_all_iff by (intro conjI) blast+
qed

text \<open>
  C10. \<open>batchPayloads\<close> keeps content and order: every payload of the run carries
  the subnet, the namespace and the collect timestamp of the run; the first payload
  holds the device record and no other payload holds any; the interfaces of the
  payloads, concatenated in payload order, are the input list.
\<close>

theorem batchPayloads_content_order:
  "map NetworkDevicesMetadata.Subnet (batchPayloads ns sub t M device interfaces)
       = replicate (length (batchPayloads ns sub t M device interfaces)) sub
   \<and> map NetworkDevicesMetadata.Namespace (batchPayloads ns sub t M device interfaces)
       = replicate (length (batchPayloads ns sub t M device interfaces)) ns
   \<and> map CollectTimestamp (batchPayloads ns sub t M device interfaces)
       = replicate (length (batchPayloads ns sub t M device interfaces)) (Unix t)
   \<and> map Devices (batchPayloads ns sub t M device interfaces)
       = [device] # replicate (length (batchPayloads ns sub t M device interfaces) - 1) []
   \<and> concat (map Interfaces (batchPayloads ns sub t M device interfaces)) = interfaces"
proof -
  define p0 where "p0 = \<lparr>NetworkDevicesMetadata.Subnet = sub, NetworkDevicesMetadata.Namespace = ns, Devices = [device], Interfaces = [], CollectTimestamp = Unix t\<rparr>"
  obtain ps' p' rc' where
    f: "foldl (batchStep ns sub t M) ([], p0, 1) interfaces = (ps', p', rc')"
    and b: "batchPayloads ns sub t M device interfaces = ps' @ [p']"
    unfolding p0_def by (rule batchPayloads_unfold)
  have "\<forall>q\<in>set ([] @ [p0]). payloadHeader q = (sub, ns, Unix t)"
    by (simp add: p0_def payloadHeader_def)
  from batch_fold_header[OF f this] b
  have hdr: "\<forall>q\<in>set (batchPayloads ns sub t M device interfaces). payloadHeader q = (sub, ns, Unix t)"
    by simp
  have "\<forall>q\<in>set (batchPayloads ns sub t M device interfaces). NetworkDevicesMetadata.Subnet q = sub"
    using hdr by (simp add: payloadHeader_def)
  then have h1: "map NetworkDevicesMetadata.Subnet (batchPayloads ns sub t M device interfaces)
       = replicate (length (batchPayloads ns sub t M device interfaces)) sub"
    by (rule map_all_replicate)
  have "\<forall>q\<in>set (batchPayloads ns sub t M device interfaces). NetworkDevicesMetadata.Namespace q = ns"
    using hdr by (simp add: payloadHeader_def)
  then have h2: "map NetworkDevicesMetadata.Namespace (batchPayloads ns sub t M device interfaces)
       = replicate (length (batchPayloads ns sub t M device interfaces)) ns"
    by (rule map_all_replicate)
  have "\<forall>q\<in>set (batchPayloads ns sub t M device interfaces). CollectTimestamp q = Unix t"
    using hdr by (simp add: payloadHeader_def)
  then have h3: "map CollectTimestamp (batchPayloads ns sub t M device interfaces)
       = replicate (length (batchPayloads ns sub t M device interfaces)) (Unix t)"
    by (rule map_all_replicate)
  from batch_fold_content[OF f] obtain n where
    i: "concat (map Interfaces (ps' @ [p'])) = concat (map Interfaces ([] @ [p0])) @ interfaces"
    and d: "map Devices (ps' @ [p']) = map Devices ([] @ [p0]) @ replicate n []" by blast
  from d b have d': "map Devices (batchPayloads ns sub t M device interfaces) = [device] # replicate n []"
    by (simp add: p0_def)
  then have "length (map Devices (batchPayloads ns sub t M device interfaces)) = Suc n"
    by simp
  then have "n = length (batchPayloads ns sub t M device interfaces) - 1" by simp
  with d' have dd: "map Devices (batchPayloads ns sub t M device interfaces)
       = [device] # replicate (length (batchPayloads ns sub t M device interfaces) - 1) []"
    by simp
  from i b have ii: "concat (map Interfaces (batchPayloads ns sub t M device interfaces)) = interfaces"
    by (simp add: p0_def)
  from h1 h2 h3 dd ii show ?thesis by (intro conjI)
qed

text \<open>The same run as above: two payloads, the interfaces in their order.\<close>

theorem batchPayloads_content_order_witness:
  "map Devices (batchPayloads ''default'' ''10.10.0.0/30'' testCollectTime 2 testDevice
                [testInterface1, testInterface2]) = [[testDevice], []]
   \<and> map Interfaces (batchPayloads ''default'' ''10.10.0.0/30'' testCollectTime 2 testDevice
                [testInterface1, testInterface2]) = [[testInterface1], [testInterface2]]
   \<and> concat (map Interfaces (batchPayloads ''default'' ''10.10.0.0/30'' testCollectTime 2 testDevice
                [testInterface1, testInterface2])) = [testInterface1, testInterface2]"
proof -
  have e: "map Devices (batchPayloads ''default'' ''10.10.0.0/30'' testCollectTime 2 testDevice
                [testInterface1, testInterface2]) = [[testDevice], []]
     \<and> map Interfaces (batchPayloads ''default'' ''10.10.0.0/30'' testCollectTime 2 testDevice
                [testInterface1, testInterface2]) = [[testInterface1], [testInterface2]]"
    by (simp add: batchPayloads_two_interfaces)
  from e batchPayloads_content_order [of "''default''" "''10.10.0.0/30''" testCollectTime 2
      testDevice "[testInterface1, testInterface2]"]
  show ?thesis by (intro conjI) blast+
qed

section \<open>Properties of \<open>ReportNetworkDeviceMetadata\<close>\<close>

lemma calls_logf [simp]: "calls (logf lvl fmt args w) = calls w"
  by (simp add: logf_def)

lemma logs_send [simp]: "logs (send c w) = logs w"
  by (simp add: send_def)

lemma calls_send [simp]: "calls (send c w) = calls w @ [c]"
  by (simp add: send_def)

lemma logs_logf [simp]: "logs (logf lvl fmt args w) = logs w @ [(lvl, fmt, args)]"
  by (simp add: logf_def)

lemma interfaceStep_calls: "calls (snd (interfaceStep deviceID st acc strIndex)) = calls (snd acc)"
  by (cases acc) (simp add: interfaceStep_def Let_def split: prod.splits option.splits)

lemma foldl_interfaceStep_calls:
  "calls (snd (foldl (interfaceStep deviceID st) acc indexes)) = calls (snd acc)"
  by (induction indexes arbitrary: acc) (simp_all add: interfaceStep_calls)

lemma buildNetworkInterfacesMetadata_calls:
  "calls (snd (buildNetworkInterfacesMetadata deviceID store w)) = calls w"
proof (cases store)
  case None
  then show ?thesis by (simp add: buildNetworkInterfacesMetadata_def)
next
  case (Some st)
  show ?thesis
  proof (cases "GetColumnIndexes st IfNameOID")
    case (Inl err)
    with Some show ?thesis by (simp add: buildNetworkInterfacesMetadata_def)
  next
    case (Inr indexes)
    have "calls (snd (foldl (interfaceStep deviceID st) ([], w) indexes)) = calls w"
      using foldl_interfaceStep_calls[of deviceID st "([], w)" indexes] by simp
    with Some Inr show ?thesis
      by (cases "foldl (interfaceStep deviceID st) ([], w) indexes")
         (simp add: buildNetworkInterfacesMetadata_def)
  qed
qed

lemma metadataPayloads_calls:
  "calls (snd (metadataPayloads ext config store origTags collectTime deviceStatus w)) = calls w"
proof -
  obtain interfaces err w1 where
    b: "buildNetworkInterfacesMetadata (CheckConfig.DeviceID config) store w = ((interfaces, err), w1)"
    by (metis surj_pair)
  with buildNetworkInterfacesMetadata_calls[of "CheckConfig.DeviceID config" store w]
  have "calls w1 = calls w" by simp
  with b show ?thesis
    by (cases err) (simp_all add: metadataPayloads_def Let_def)
qed

lemma sendPayloads_calls:
  "calls (sendPayloads ext ps w) = calls w @ concat (map (eventOf ext) (takeWhile (marshals ext) ps))"
proof (induction ps arbitrary: w)
  case Nil
  show ?case by simp
next
  case (Cons p ps)
  show ?case
  proof (cases "Marshal ext p")
    case (Inl err)
    then show ?thesis by (simp add: marshals_def)
  next
    case (Inr payloadBytes)
    then show ?thesis using Cons.IH by (simp add: marshals_def eventOf_def)
  qed
qed

lemma sendPayloads_logs:
  "logs (sendPayloads ext ps w) = logs w @ marshalFailureLog ext (dropWhile (marshals ext) ps)"
proof (induction ps arbitrary: w)
  case Nil
  show ?case by (simp add: marshalFailureLog_def)
next
  case (Cons p ps)
  show ?case
  proof (cases "Marshal ext p")
    case (Inl err)
    then show ?thesis by (simp add: marshals_def marshalFailureLog_def)
  next
    case (Inr payloadBytes)
    then show ?thesis using Cons.IH by (simp add: marshals_def)
  qed
qed

text \<open>
  The run with budget 1, one interface and a marshaller that refuses the payload
  with the device: two payloads, the device alone and the interface alone.
\<close>

lemma failing_run_payloads:
  "fst (metadataPayloads failingCollaborators fetchErrorConfig (Some oneInterfaceStore)
          fetchErrorTags testCollectTime DeviceStatusReachable emptyWorld)
   = [\<lparr>NetworkDevicesMetadata.Subnet = ''127.0.0.0/30'', NetworkDevicesMetadata.Namespace = ''default'',
       Devices = [(hd (Devices fetchErrorPayload))\<lparr>DeviceMetadata.Status := 1\<rparr>],
       Interfaces = [], CollectTimestamp = 946684800\<rparr>,
      \<lparr>NetworkDevicesMetadata.Subnet = ''127.0.0.0/30'', NetworkDevicesMetadata.Namespace = ''default'',
       Devices = [],
       Interfaces = [\<lparr>InterfaceMetadata.DeviceID = ''default:1.2.3.5'',
                      InterfaceMetadata.IDTags = [''interface:nameRow1''],
                      InterfaceMetadata.Index = 1,
                      InterfaceMetadata.Name = ''nameRow1'',
                      InterfaceMetadata.Alias = ''nameRow1'',
                      InterfaceMetadata.Description = ''nameRow1'',
                      InterfaceMetadata.MacAddress = ''nameRow1'',
                      InterfaceMetadata.AdminStatus = 1,
                      InterfaceMetadata.OperStatus = 1\<rparr>],
       CollectTimestamp = 946684800\<rparr>]"
  by (simp add: metadataPayloads_def failingCollaborators_def fetchErrorConfig_def oneInterfaceStore_def
      fetchErrorTags_def testCollectTime_def DeviceStatusReachable_def emptyWorld_def fetchErrorPayload_def
      buildNetworkDeviceMetadata_def buildNetworkInterfacesMetadata_def interfaceStep_def
      Atoi_def ParseUint_def isDigit_def int32_of_int_def int32_of_float_def interfaceNameTagKey_def
      batchPayloads_def CopyStrings_def sortUniq_def Unix_def Let_def)

text \<open>
  C2, as amended. When a payload does not marshal during
  \<open>ReportNetworkDeviceMetadata\<close>, the error is logged and the function returns: the
  payloads before it have been sent, in order, and neither the failing payload nor
  any later payload of the run is sent. So the sender calls of a run are the events
  of the longest prefix of payloads that marshal, and the log gains one error entry
  exactly when a payload fails.
\<close>

theorem ReportNetworkDeviceMetadata_stops_at_marshal_failure:
  "calls (ReportNetworkDeviceMetadata ext config store origTags collectTime deviceStatus w)
     = calls w @ concat (map (eventOf ext) (takeWhile (marshals ext)
         (fst (metadataPayloads ext config store origTags collectTime deviceStatus w))))
   \<and> logs (ReportNetworkDeviceMetadata ext config store origTags collectTime deviceStatus w)
     = logs (snd (metadataPayloads ext config store origTags collectTime deviceStatus w))
       @ marshalFailureLog ext (dropWhile (marshals ext)
         (fst (metadataPayloads ext config store origTags collectTime deviceStatus w)))"
proof -
  obtain payloads w2 where
    m: "metadataPayloads ext config store origTags collectTime deviceStatus w = (payloads, w2)"
    by (cases "metadataPayloads ext config store origTags collectTime deviceStatus w") blast
  then have r: "ReportNetworkDeviceMetadata ext config store origTags collectTime deviceStatus w
      = sendPayloads ext payloads w2"
    by (simp add: ReportNetworkDeviceMetadata_def)
  have c: "calls w2 = calls w"
    using metadataPayloads_calls[of ext config store origTags collectTime deviceStatus w] m by simp
  show ?thesis
    by (simp only: r m fst_conv snd_conv sendPayloads_calls sendPayloads_logs c)
qed

text \<open>In that run no payload precedes the failure, and the failure is logged.\<close>

lemma failing_run_takeWhile:
  "takeWhile (marshals failingCollaborators)
     (fst (metadataPayloads failingCollaborators fetchErrorConfig (Some oneInterfaceStore)
            fetchErrorTags testCollectTime DeviceStatusReachable emptyWorld)) = []"
  by (simp only: failing_run_payloads) (simp add: marshals_def failingCollaborators_def)

lemma failing_run_log:
  "marshalFailureLog failingCollaborators (dropWhile (marshals failingCollaborators)
     (fst (metadataPayloads failingCollaborators fetchErrorConfig (Some oneInterfaceStore)
            fetchErrorTags testCollectTime DeviceStatusReachable emptyWorld)))
   = [(ErrorLvl, ''Error marshalling device metadata: %s'', [StrArg ''unsupported value''])]"
  by (simp only: failing_run_payloads)
     (simp add: marshals_def marshalFailureLog_def failingCollaborators_def)

lemma failing_run_second:
  "length (fst (metadataPayloads failingCollaborators fetchErrorConfig (Some oneInterfaceStore)
            fetchErrorTags testCollectTime DeviceStatusReachable emptyWorld)) = 2
   \<and> \<not> marshals failingCollaborators
         (fst (metadataPayloads failingCollaborators fetchErrorConfig (Some oneInterfaceStore)
            fetchErrorTags testCollectTime DeviceStatusReachable emptyWorld) ! 0)
   \<and> eventOf failingCollaborators
         (fst (metadataPayloads failingCollaborators fetchErrorConfig (Some oneInterfaceStore)
            fetchErrorTags testCollectTime DeviceStatusReachable emptyWorld) ! 1)
       = [EventPlatformEvent ''{interfaces}'' ''network-devices-metadata'']"
  by (simp only: failing_run_payloads)
     (simp add: marshals_def eventOf_def failingCollaborators_def EventTypeNetworkDevicesMetadata_def)

lemma failing_run_calls:
  "calls (ReportNetworkDeviceMetadata failingCollaborators fetchErrorConfig (Some oneInterfaceStore)
            fetchErrorTags testCollectTime DeviceStatusReachable emptyWorld) = []"
proof -
  obtain payloads w2 where
    m: "metadataPayloads failingCollaborators fetchErrorConfig (Some oneInterfaceStore)
            fetchErrorTags testCollectTime DeviceStatusReachable emptyWorld = (payloads, w2)"
    by (metis surj_pair)
  have t: "takeWhile (marshals failingCollaborators) payloads = []"
    using failing_run_takeWhile m by simp
  have "calls w2 = calls emptyWorld"
    using metadataPayloads_calls [of failingCollaborators fetchErrorConfig "Some oneInterfaceStore"
        fetchErrorTags testCollectTime DeviceStatusReachable emptyWorld] m by simp
  then have "calls w2 = []" by (simp add: emptyWorld_def)
  then show ?thesis
    by (simp add: ReportNetworkDeviceMetadata_def m sendPayloads_calls t)
qed

text \<open>
  In the run above the first of the two payloads fails: nothing is sent, and the
  error is logged once.
\<close>

theorem ReportNetworkDeviceMetadata_stops_at_marshal_failure_witness:
  "calls (ReportNetworkDeviceMetadata failingCollaborators fetchErrorConfig (Some oneInterfaceStore)
            fetchErrorTags testCollectTime DeviceStatusReachable emptyWorld) = []
   \<and> logs (ReportNetworkDeviceMetadata failingCollaborators fetchErrorConfig (Some oneInterfaceStore)
            fetchErrorTags testCollectTime DeviceStatusReachable emptyWorld)
       = logs (snd (metadataPayloads failingCollaborators fetchErrorConfig (Some oneInterfaceStore)
            fetchErrorTags testCollectTime DeviceStatusReachable emptyWorld))
         @ [(ErrorLvl, ''Error marshalling device metadata: %s'', [StrArg ''unsupported value''])]"
proof -
  have e: "calls emptyWorld = []" by (simp add: emptyWorld_def)
  from ReportNetworkDeviceMetadata_stops_at_marshal_failure [of failingCollaborators fetchErrorConfig
      "Some oneInterfaceStore" fetchErrorTags testCollectTime DeviceStatusReachable emptyWorld]
  show ?thesis
    by (simp only: failing_run_takeWhile failing_run_log e list.map concat.simps append_Nil)
qed

text \<open>
  C2 as stated fails: in that run the second payload marshals, and it is not sent
  either.
\<close>

theorem marshal_failure_drops_later_payloads_counterexample:
  "length (fst (metadataPayloads failingCollaborators fetchErrorConfig (Some oneInterfaceStore)
            fetchErrorTags testCollectTime DeviceStatusReachable emptyWorld)) = 2
   \<and> \<not> marshals failingCollaborators
         (fst (metadataPayloads failingCollaborators fetchErrorConfig (Some oneInterfaceStore)
            fetchErrorTags testCollectTime DeviceStatusReachable emptyWorld) ! 0)
   \<and> eventOf failingCollaborators
         (fst (metadataPayloads failingCollaborators fetchErrorConfig (Some oneInterfaceStore)
            fetchErrorTags testCollectTime DeviceStatusReachable emptyWorld) ! 1)
       = [EventPlatformEvent ''{interfaces}'' ''network-devices-metadata'']
   \<and> calls (ReportNetworkDeviceMetadata failingCollaborators fetchErrorConfig (Some oneInterfaceStore)
            fetchErrorTags testCollectTime DeviceStatusReachable emptyWorld) = []"
  using failing_run_second failing_run_calls by (intro conjI) blast+








section \<open>Properties of the run\<close>





















































end
